theory Spec2Isabelle
  imports Main "HOL-Library.Sublist"
begin

section \<open>Data model\<close>

text \<open>
  The scripts under \<^verbatim>\<open>logsAnalysis/\<close> read two CSV files with \<^verbatim>\<open>csv.DictReader\<close>:
  the summary log (columns \<^verbatim>\<open>userId\<close>, \<^verbatim>\<open>role\<close>) and the in-game log (columns
  \<^verbatim>\<open>userId\<close>, \<^verbatim>\<open>role\<close>, \<^verbatim>\<open>day\<close>, \<^verbatim>\<open>timestamp\<close>). A row is the dictionary the reader
  yields; the four columns the scripts look at are fields of the record, every other
  column is kept, in order, in \<open>other_columns\<close>. A field that is there is a Python
  \<^verbatim>\<open>str\<close>, a list of code points below 256. A line with fewer fields than the header
  gives a row whose missing fields are \<^verbatim>\<open>None\<close>, and \<^verbatim>\<open>row.get('day', '')\<close> then
  returns that \<^verbatim>\<open>None\<close>: the day and the timestamp of a row may be missing, the user
  and the label are taken to be there.
\<close>

record log_row =
  userId :: string
  role :: string
  day :: "string option"
  timestamp :: "string option"
  other_columns :: "(string \<times> string) list"

text \<open>A row of the summary log, where no script reads a day or a timestamp, and a row
  of the in-game log with all four fields and no further columns.\<close>

definition summary_row :: "string \<Rightarrow> string \<Rightarrow> log_row" where
  "summary_row uid label =
     \<lparr>userId = uid, role = label, day = None, timestamp = None, other_columns = []\<rparr>"

definition ingame_row :: "string \<Rightarrow> string \<Rightarrow> string \<Rightarrow> string \<Rightarrow> log_row" where
  "ingame_row uid label d ts =
     \<lparr>userId = uid, role = label, day = Some d, timestamp = Some ts, other_columns = []\<rparr>"

text \<open>Exceptions that leave a script, as values.\<close>

datatype py_error = TypeError | KeyError | AttributeError | SystemExit

text \<open>Python's \<^verbatim>\<open>needle in text\<close> on two strings: \<open>needle\<close> occurs as a contiguous
  substring of \<open>text\<close>.\<close>

abbreviation str_in :: "string \<Rightarrow> string \<Rightarrow> bool" where
  "str_in needle text \<equiv> sublist needle text"

text \<open>The two operator accounts, \<^verbatim>\<open>excluded_users\<close> in every script that has them.\<close>

definition excluded_users :: "string set" where
  "excluded_users = {''yoav@tau.ac.il'', ''yoni_levy@tau.ac.il''}"

text \<open>
  A loop over rows whose body may raise. The body returns the variables as it leaves
  them and the exception it raised, if any; the first exception ends the loop, with the
  variables as they were when it was raised.
\<close>

fun for_rows ::
    "('s \<Rightarrow> 'r \<Rightarrow> 's \<times> py_error option) \<Rightarrow> 's \<Rightarrow> 'r list \<Rightarrow> 's \<times> py_error option" where
  "for_rows body s [] = (s, None)"
| "for_rows body s (r # rs) =
     (case body s r of
        (s', Some e) \<Rightarrow> (s', Some e)
      | (s', None) \<Rightarrow> for_rows body s' rs)"

section \<open>Role classifier (\<^verbatim>\<open>get_role_category\<close>)\<close>

definition get_role_category :: "string \<Rightarrow> string" where
  "get_role_category role_str =
     (if str_in ''Athens'' role_str then ''Athens''
      else if str_in ''North America'' role_str then ''North America''
      else if str_in ''Mars Colony'' role_str then ''Mars Colony''
      else ''Other'')"

section \<open>Profile builders\<close>

text \<open>
  \<^verbatim>\<open>analyze_users.py\<close>, \<^verbatim>\<open>analyze_logs\<close>, lines 21-34: the body of the loop over the
  summary rows. The entry of the user is created before the category is looked at; there
  is no test against the operator accounts in this script.
\<close>

definition analyze_users_row ::
    "(string \<rightharpoonup> string set) \<Rightarrow> log_row \<Rightarrow> (string \<rightharpoonup> string set)" where
  "analyze_users_row users_roles row =
     (let user_id = userId row; role_raw = role row in
      if user_id = [] then users_roles
      else
        let r = get_role_category role_raw;
            users_roles1 =
              (if user_id \<notin> dom users_roles then users_roles(user_id \<mapsto> {}) else users_roles)
        in if r \<noteq> ''Other''
           then users_roles1(user_id \<mapsto>
                  insert r (case users_roles1 user_id of None \<Rightarrow> {} | Some s \<Rightarrow> s))
           else users_roles1)"

definition analyze_users_roles :: "log_row list \<Rightarrow> (string \<rightharpoonup> string set)" where
  "analyze_users_roles summary = foldl analyze_users_row Map.empty summary"

text \<open>
  \<^verbatim>\<open>analyze_users_debug.py\<close>, \<^verbatim>\<open>analyze_logs\<close>, lines 21-38: the same loop with the
  test \<^verbatim>\<open>user_id in ['yoav@tau.ac.il', 'yoni_levy@tau.ac.il']\<close> added.
\<close>

definition analyze_users_debug_row ::
    "(string \<rightharpoonup> string set) \<Rightarrow> log_row \<Rightarrow> (string \<rightharpoonup> string set)" where
  "analyze_users_debug_row users_roles row =
     (let user_id = userId row; role_raw = role row in
      if user_id = [] then users_roles
      else if user_id \<in> set [''yoav@tau.ac.il'', ''yoni_levy@tau.ac.il''] then users_roles
      else
        let r = get_role_category role_raw;
            users_roles1 =
              (if user_id \<notin> dom users_roles then users_roles(user_id \<mapsto> {}) else users_roles)
        in if r \<noteq> ''Other''
           then users_roles1(user_id \<mapsto>
                  insert r (case users_roles1 user_id of None \<Rightarrow> {} | Some s \<Rightarrow> s))
           else users_roles1)"

definition analyze_users_debug_roles :: "log_row list \<Rightarrow> (string \<rightharpoonup> string set)" where
  "analyze_users_debug_roles summary = foldl analyze_users_debug_row Map.empty summary"

text \<open>
  The builder of \<^verbatim>\<open>analyze_day8_completion.py\<close> (lines 26-37, where the dictionary is
  called \<^verbatim>\<open>targets\<close>), \<^verbatim>\<open>analyze_comprehensive_discrepancies.py\<close> (lines 25-33),
  \<^verbatim>\<open>analyze_missing_summary.py\<close> (lines 26-35) and \<^verbatim>\<open>verify_discrepancy.py\<close>
  (lines 32-45, with the classifier written inline as the same \<^verbatim>\<open>if/elif\<close> chain):
  the entry of the user is created only under \<^verbatim>\<open>role != "Other"\<close>.
\<close>

definition users_summary_roles_row ::
    "(string \<rightharpoonup> string set) \<Rightarrow> log_row \<Rightarrow> (string \<rightharpoonup> string set)" where
  "users_summary_roles_row users_summary_roles row =
     (let uid = userId row in
      if uid = [] \<or> uid \<in> excluded_users then users_summary_roles
      else
        let r = get_role_category (role row) in
        if r \<noteq> ''Other''
        then
          let roles1 =
                (if uid \<notin> dom users_summary_roles
                 then users_summary_roles(uid \<mapsto> {}) else users_summary_roles)
          in roles1(uid \<mapsto> insert r (case roles1 uid of None \<Rightarrow> {} | Some s \<Rightarrow> s))
        else users_summary_roles)"

definition users_summary_roles :: "log_row list \<Rightarrow> (string \<rightharpoonup> string set)" where
  "users_summary_roles summary = foldl users_summary_roles_row Map.empty summary"

text \<open>Reading a dictionary of sets with the empty set as default,
  \<^verbatim>\<open>d.get(uid, set())\<close>.\<close>

definition get_set :: "(string \<rightharpoonup> string set) \<Rightarrow> string \<Rightarrow> string set" where
  "get_set d uid = (case d uid of None \<Rightarrow> {} | Some s \<Rightarrow> s)"

text \<open>
  The role profile in the words of the specification, to compare the builders with: the
  categories ever observed for the user in the summary log, \<^verbatim>\<open>Other\<close> left out.
\<close>

definition observed_roles :: "log_row list \<Rightarrow> string \<Rightarrow> string set" where
  "observed_roles summary uid =
     (\<lambda>row. get_role_category (role row)) ` {row \<in> set summary. userId row = uid} - {''Other''}"

section \<open>Completion buckets (\<^verbatim>\<open>analyze_users_debug.py\<close>, lines 68-100)\<close>

text \<open>
  Each branch of the \<^verbatim>\<open>if/elif\<close> chain bumps one counter and sets \<^verbatim>\<open>classified\<close>;
  the bucket names the counter. \<open>Unclassified\<close> is the case in which no branch ran and
  the line \<^verbatim>\<open>UNCLASSIFIED\<close> is printed.
\<close>

datatype bucket =
  NoValidRoles | AllThree | AthensOnly | AthensAndNA | NoAthensButOther | AthensAndMars
  | Unclassified

definition bucket_of :: "string set \<Rightarrow> bucket" where
  "bucket_of roles =
     (let has_athens = ''Athens'' \<in> roles;
          has_na = ''North America'' \<in> roles;
          has_mars = ''Mars Colony'' \<in> roles
      in if card roles = 0 then NoValidRoles
         else if has_athens \<and> has_na \<and> has_mars then AllThree
         else if has_athens \<and> card roles = 1 then AthensOnly
         else if has_athens \<and> has_na \<and> \<not> has_mars then AthensAndNA
         else if (has_na \<or> has_mars) \<and> \<not> has_athens then NoAthensButOther
         else if has_athens \<and> has_mars \<and> \<not> has_na then AthensAndMars
         else Unclassified)"

text \<open>The conditions of the six branches, in the order of the source.\<close>

definition branch_conditions :: "string set \<Rightarrow> (bucket \<times> bool) list" where
  "branch_conditions roles =
     (let has_athens = ''Athens'' \<in> roles;
          has_na = ''North America'' \<in> roles;
          has_mars = ''Mars Colony'' \<in> roles
      in [(NoValidRoles, card roles = 0),
          (AllThree, has_athens \<and> has_na \<and> has_mars),
          (AthensOnly, has_athens \<and> card roles = 1),
          (AthensAndNA, has_athens \<and> has_na \<and> \<not> has_mars),
          (NoAthensButOther, (has_na \<or> has_mars) \<and> \<not> has_athens),
          (AthensAndMars, has_athens \<and> has_mars \<and> \<not> has_na)])"

record counters =
  no_valid_roles :: nat
  all_three :: nat
  only_athens :: nat
  athens_na_only :: nat
  na_or_mars_no_athens :: nat
  athens_mars_only :: nat

fun count_bucket :: "counters \<Rightarrow> bucket \<Rightarrow> counters" where
  "count_bucket c NoValidRoles = c\<lparr>no_valid_roles := no_valid_roles c + 1\<rparr>"
| "count_bucket c AllThree = c\<lparr>all_three := all_three c + 1\<rparr>"
| "count_bucket c AthensOnly = c\<lparr>only_athens := only_athens c + 1\<rparr>"
| "count_bucket c AthensAndNA = c\<lparr>athens_na_only := athens_na_only c + 1\<rparr>"
| "count_bucket c NoAthensButOther = c\<lparr>na_or_mars_no_athens := na_or_mars_no_athens c + 1\<rparr>"
| "count_bucket c AthensAndMars = c\<lparr>athens_mars_only := athens_mars_only c + 1\<rparr>"
| "count_bucket c Unclassified = c"

section \<open>Expected-missing roles (\<^verbatim>\<open>analyze_day8_completion.py\<close>, lines 43-69)\<close>

definition missing_roles :: "string set \<Rightarrow> string set" where
  "missing_roles roles =
     (if ''Athens'' \<in> roles \<and> ''North America'' \<notin> roles \<and> ''Mars Colony'' \<notin> roles
      then {''North America'', ''Mars Colony''}
      else if ''Athens'' \<in> roles \<and> ''North America'' \<in> roles \<and> ''Mars Colony'' \<notin> roles
      then {''Mars Colony''}
      else if ''Athens'' \<in> roles \<and> ''North America'' \<notin> roles \<and> ''Mars Colony'' \<in> roles
      then {''North America''}
      else if ''Athens'' \<notin> roles
      then {''Athens''}
           \<union> (if ''North America'' \<notin> roles then {''North America''} else {})
           \<union> (if ''Mars Colony'' \<notin> roles then {''Mars Colony''} else {})
      else {})"

text \<open>The loop over \<^verbatim>\<open>targets.items()\<close>: a user gets an entry in
  \<^verbatim>\<open>users_to_check\<close> only when \<^verbatim>\<open>missing\<close> is not empty.\<close>

definition users_to_check :: "(string \<rightharpoonup> string set) \<Rightarrow> (string \<rightharpoonup> string set)" where
  "users_to_check targets =
     (\<lambda>uid. case targets uid of
              None \<Rightarrow> None
            | Some roles \<Rightarrow>
                if missing_roles roles \<noteq> {} then Some (missing_roles roles) else None)"

section \<open>Day-8 scan of the in-game log (\<^verbatim>\<open>analyze_day8_completion.py\<close>, lines 79-99)\<close>

definition matched_target :: "string \<Rightarrow> string set \<Rightarrow> string option" where
  "matched_target role_val target_roles =
     (if str_in ''Athens'' role_val \<and> ''Athens'' \<in> target_roles then Some ''Athens''
      else if str_in ''North America'' role_val \<and> ''North America'' \<in> target_roles
      then Some ''North America''
      else if str_in ''Mars Colony'' role_val \<and> ''Mars Colony'' \<in> target_roles
      then Some ''Mars Colony''
      else None)"

definition day8_row ::
    "(string \<rightharpoonup> string set) \<Rightarrow> (string \<rightharpoonup> (string \<rightharpoonup> bool)) \<Rightarrow> log_row
       \<Rightarrow> (string \<rightharpoonup> (string \<rightharpoonup> bool))" where
  "day8_row to_check results row =
     (let uid = userId row in
      case to_check uid of
        None \<Rightarrow> results
      | Some target_roles \<Rightarrow>
          let role_val = role row; day_val = day row in
          (case matched_target role_val target_roles of
             None \<Rightarrow> results
           | Some t \<Rightarrow>
               if day_val = Some ''8''
               then
                 let results1 =
                       (if uid \<notin> dom results then results(uid \<mapsto> Map.empty) else results)
                 in results1(uid \<mapsto>
                      (case results1 uid of None \<Rightarrow> Map.empty | Some m \<Rightarrow> m)(t \<mapsto> True))
               else results))"

definition day8_scan ::
    "(string \<rightharpoonup> string set) \<Rightarrow> log_row list \<Rightarrow> (string \<rightharpoonup> (string \<rightharpoonup> bool))" where
  "day8_scan to_check ingame = foldl (day8_row to_check) Map.empty ingame"

text \<open>\<^verbatim>\<open>is_verified\<close>, line 111: \<^verbatim>\<open>results.get(uid, {}).get(role, False)\<close>.\<close>

definition is_verified :: "(string \<rightharpoonup> (string \<rightharpoonup> bool)) \<Rightarrow> string \<Rightarrow> string \<Rightarrow> bool" where
  "is_verified results uid r =
     (case results uid of
        None \<Rightarrow> False
      | Some m \<Rightarrow> (case m r of None \<Rightarrow> False | Some b \<Rightarrow> b))"


section \<open>Python's \<^verbatim>\<open>int\<close> on a string\<close>

text \<open>
  The built-in \<^verbatim>\<open>int(text)\<close> in base ten on a \<^verbatim>\<open>str\<close> of code points below 256 (among
  which the only decimal digits are \<^verbatim>\<open>0\<close> to \<^verbatim>\<open>9\<close>): surrounding white space is
  dropped, one sign may come first, then at least one digit; a single underscore may
  stand between two digits; more than 4300 digits are refused (the interpreter's
  default limit). Anything else is \<^verbatim>\<open>ValueError\<close>, here \<open>None\<close>. White space is tab,
  line feed, vertical tab, form feed, carriage return and space, and the two code points
  U+0085 and U+00A0, which \<^verbatim>\<open>int\<close> turns into spaces before it parses; the separators
  U+001C to U+001F are not dropped.
\<close>

definition py_isspace :: "char \<Rightarrow> bool" where
  "py_isspace c =
     (c \<in> set [CHR 0x09, CHR 0x0A, CHR 0x0B, CHR 0x0C, CHR 0x0D, CHR 0x20,
               CHR 0x85, CHR 0xA0])"

definition max_str_digits :: nat where
  "max_str_digits = 4300"

definition py_strip :: "string \<Rightarrow> string" where
  "py_strip s = rev (dropWhile py_isspace (rev (dropWhile py_isspace s)))"

definition digit_of :: "char \<Rightarrow> nat option" where
  "digit_of c =
     (let n = (of_char c :: nat) in
      if of_char CHR ''0'' \<le> n \<and> n \<le> of_char CHR ''9''
      then Some (n - of_char CHR ''0'') else None)"

fun py_digits :: "nat \<Rightarrow> string \<Rightarrow> nat option" where
  "py_digits acc [] = Some acc"
| "py_digits acc [c] =
     (case digit_of c of None \<Rightarrow> None | Some d \<Rightarrow> Some (acc * 10 + d))"
| "py_digits acc (c # c' # cs) =
     (if c = CHR ''_''
      then (case digit_of c' of None \<Rightarrow> None | Some d \<Rightarrow> py_digits (acc * 10 + d) cs)
      else (case digit_of c of None \<Rightarrow> None | Some d \<Rightarrow> py_digits (acc * 10 + d) (c' # cs)))"

definition py_unsigned :: "string \<Rightarrow> nat option" where
  "py_unsigned s =
     (if max_str_digits < length (filter (\<lambda>c. c \<noteq> CHR ''_'') s) then None
      else case s of
             [] \<Rightarrow> None
           | c # cs \<Rightarrow> (case digit_of c of None \<Rightarrow> None | Some d \<Rightarrow> py_digits d cs))"

definition py_int :: "string \<Rightarrow> int option" where
  "py_int text =
     (case py_strip text of
        [] \<Rightarrow> None
      | c # cs \<Rightarrow>
          if c = CHR ''-'' then map_option (\<lambda>n. - int n) (py_unsigned cs)
          else if c = CHR ''+'' then map_option int (py_unsigned cs)
          else map_option int (py_unsigned (c # cs)))"


section \<open>Maximum day (\<^verbatim>\<open>analyze_max_day.py\<close>)\<close>

text \<open>The dictionary \<^verbatim>\<open>targets\<close> of the script, lines 10-14.\<close>

definition targets :: "string \<rightharpoonup> string" where
  "targets =
     [''Mayajaqliner@mail.tau.ac.il'' \<mapsto> ''Mars Colony'',
      ''gal2@mail.tau.ac.il'' \<mapsto> ''Mars Colony'',
      ''noamronen2@mail.tau.ac.il'' \<mapsto> ''Mars Colony'']"

text \<open>Line 16: \<^verbatim>\<open>max_days = {uid: 0 for uid in targets}\<close>.\<close>

definition max_days_init :: "(string \<rightharpoonup> string) \<Rightarrow> (string \<rightharpoonup> int)" where
  "max_days_init tgts = (\<lambda>uid. case tgts uid of None \<Rightarrow> None | Some _ \<Rightarrow> Some 0)"

text \<open>
  Lines 22-35, the body of the loop. \<^verbatim>\<open>int(day_val)\<close> raises \<^verbatim>\<open>ValueError\<close> on text
  that is no integer, which is caught and passed over, and \<^verbatim>\<open>TypeError\<close> on the
  \<^verbatim>\<open>None\<close> of a missing day, which \<^verbatim>\<open>except ValueError\<close> does not catch; nor does it
  catch the \<^verbatim>\<open>KeyError\<close> of \<^verbatim>\<open>max_days[uid]\<close> on a missing key.
\<close>

definition max_day_row ::
    "(string \<rightharpoonup> string) \<Rightarrow> (string \<rightharpoonup> int) \<Rightarrow> log_row
       \<Rightarrow> (string \<rightharpoonup> int) \<times> py_error option" where
  "max_day_row tgts max_days row =
     (let uid = userId row in
      case tgts uid of
        None \<Rightarrow> (max_days, None)
      | Some target_role \<Rightarrow>
          let role_val = role row; day_val = day row in
          if str_in target_role role_val
          then (case day_val of
                  None \<Rightarrow> (max_days, Some TypeError)
                | Some day_text \<Rightarrow>
                    (case py_int day_text of
                       None \<Rightarrow> (max_days, None)
                     | Some day_int \<Rightarrow>
                         (case max_days uid of
                            None \<Rightarrow> (max_days, Some KeyError)
                          | Some cur \<Rightarrow>
                              if day_int > cur then (max_days(uid \<mapsto> day_int), None)
                              else (max_days, None))))
          else (max_days, None))"

definition analyze_max_day ::
    "(string \<rightharpoonup> string) \<Rightarrow> log_row list \<Rightarrow> (string \<rightharpoonup> int) \<times> py_error option" where
  "analyze_max_day tgts ingame = for_rows (max_day_row tgts) (max_days_init tgts) ingame"

text \<open>The days that parse, over the rows of the user whose label contains the target
  role: what the maximum of the scan is compared with.\<close>

definition matching_days :: "string \<Rightarrow> string \<Rightarrow> log_row list \<Rightarrow> int set" where
  "matching_days uid target_role ingame =
     {d. \<exists>row \<in> set ingame. userId row = uid \<and> str_in target_role (role row)
                               \<and> Option.bind (day row) py_int = Some d}"

section \<open>Population filter (\<^verbatim>\<open>filter_ingame_logs.py\<close>)\<close>

text \<open>\<^verbatim>\<open>get_valid_users\<close>, lines 15-29: every non-empty user id of the summary log that
  is not an operator account.\<close>

definition get_valid_users_row :: "string set \<Rightarrow> log_row \<Rightarrow> string set" where
  "get_valid_users_row valid_users row =
     (let user_id = userId row in
      if user_id = [] then valid_users
      else if user_id \<in> excluded_users then valid_users
      else insert user_id valid_users)"

definition valid_users_of :: "log_row list \<Rightarrow> string set" where
  "valid_users_of summary = foldl get_valid_users_row {} summary"

text \<open>
  A parsed timestamp. \<^verbatim>\<open>datetime.fromisoformat\<close> belongs to Python's library and is a
  parameter of the model (\<open>None\<close> is its \<^verbatim>\<open>ValueError\<close>); what the filter needs of its
  result is whether it carries a UTC offset and where it lies on its time line. Python
  refuses to order a \<^verbatim>\<open>datetime\<close> with an offset against one without: \<^verbatim>\<open>TypeError\<close>.
\<close>

record py_datetime =
  tz_aware :: bool
  instant :: int

definition dt_less :: "py_datetime \<Rightarrow> py_datetime \<Rightarrow> py_error + bool" where
  "dt_less a b = (if tz_aware a = tz_aware b then Inr (instant a < instant b) else Inl TypeError)"

text \<open>\<^verbatim>\<open>ts_str.replace('Z', '+00:00')\<close>: every \<^verbatim>\<open>Z\<close> of the string is replaced.\<close>

definition replace_Z :: "string \<Rightarrow> string" where
  "replace_Z ts_str = concat (map (\<lambda>c. if c = CHR ''Z'' then ''+00:00'' else [c]) ts_str)"

record filter_state =
  kept_rows :: "log_row list"
  removed_count :: nat
  total_count :: nat
  min_ts :: "py_datetime option"
  max_ts :: "py_datetime option"

definition filter_init :: filter_state where
  "filter_init =
     \<lparr>kept_rows = [], removed_count = 0, total_count = 0, min_ts = None, max_ts = None\<rparr>"

text \<open>Lines 79-82: the running minimum and maximum.\<close>

definition track_dates ::
    "py_datetime \<Rightarrow> filter_state \<Rightarrow> filter_state \<times> py_error option" where
  "track_dates ts st =
     (case (case min_ts st of None \<Rightarrow> Inr True | Some m \<Rightarrow> dt_less ts m) of
        Inl e \<Rightarrow> (st, Some e)
      | Inr is_below \<Rightarrow>
          let st1 = (if is_below then st\<lparr>min_ts := Some ts\<rparr> else st) in
          (case (case max_ts st1 of None \<Rightarrow> Inr True | Some m \<Rightarrow> dt_less m ts) of
             Inl e \<Rightarrow> (st1, Some e)
           | Inr is_above \<Rightarrow> (if is_above then st1\<lparr>max_ts := Some ts\<rparr> else st1, None)))"

text \<open>Lines 60-86: the body of the loop over the in-game rows. On a row without a
  timestamp \<^verbatim>\<open>ts_str.replace\<close> is called on \<^verbatim>\<open>None\<close>: \<^verbatim>\<open>AttributeError\<close>, which
  \<^verbatim>\<open>except ValueError\<close> does not catch.\<close>

definition filter_row ::
    "(string \<Rightarrow> py_datetime option) \<Rightarrow> string set \<Rightarrow> filter_state \<Rightarrow> log_row
       \<Rightarrow> filter_state \<times> py_error option" where
  "filter_row fromisoformat valid_users st row =
     (let st1 = st\<lparr>total_count := total_count st + 1\<rparr>; uid = userId row in
      if uid \<in> valid_users
      then
        let st2 = st1\<lparr>kept_rows := kept_rows st1 @ [row]\<rparr>; ts_str = timestamp row in
        (case ts_str of
           None \<Rightarrow> (st2, Some AttributeError)
         | Some ts_text \<Rightarrow>
             (case fromisoformat (replace_Z ts_text) of
                None \<Rightarrow> (st2, None)
              | Some ts \<Rightarrow> track_dates ts st2))
      else (st1\<lparr>removed_count := removed_count st1 + 1\<rparr>, None))"

definition filter_rows ::
    "(string \<Rightarrow> py_datetime option) \<Rightarrow> string set \<Rightarrow> log_row list
       \<Rightarrow> filter_state \<times> py_error option" where
  "filter_rows fromisoformat valid_users ingame =
     for_rows (filter_row fromisoformat valid_users) filter_init ingame"

subsection \<open>The files\<close>

text \<open>
  A CSV file on disk: its header line, if it has one, and its rows. An empty file has
  neither. The file system maps a path to the file stored there.
\<close>

record csv_file =
  fieldnames :: "string list option"
  records :: "log_row list"

type_synonym file_system = "string \<rightharpoonup> csv_file"

definition summary_path :: string where
  "summary_path = ''logsAnalysis/summaryLogsPilot.csv''"

definition input_file :: string where
  "input_file = ''logsAnalysis/ingameLogsPilot.csv''"

text \<open>
  Lines 93-96, one operation of the script on \<^verbatim>\<open>input_file\<close> after the other:
  \<^verbatim>\<open>open(input_file, 'w')\<close> empties the file where it lies, \<^verbatim>\<open>writeheader\<close> writes the
  field names (and fails on the \<^verbatim>\<open>None\<close> an empty input file gave as field names),
  \<^verbatim>\<open>writerows\<close> appends the rows kept.
\<close>

datatype write_op = OpenW | WriteHeader "string list option" | WriteRows "log_row list"

text \<open>\<^verbatim>\<open>csv.DictWriter\<close> writes a field that is \<^verbatim>\<open>None\<close> as the empty string.\<close>

definition as_written :: "log_row \<Rightarrow> log_row" where
  "as_written row =
     row\<lparr>day := Some (case day row of None \<Rightarrow> [] | Some d \<Rightarrow> d),
         timestamp := Some (case timestamp row of None \<Rightarrow> [] | Some ts \<Rightarrow> ts)\<rparr>"

fun apply_write :: "csv_file \<Rightarrow> write_op \<Rightarrow> py_error + csv_file" where
  "apply_write f OpenW = Inr \<lparr>fieldnames = None, records = []\<rparr>"
| "apply_write f (WriteHeader None) = Inl TypeError"
| "apply_write f (WriteHeader (Some h)) = Inr (f\<lparr>fieldnames := Some h\<rparr>)"
| "apply_write f (WriteRows rs) = Inr (f\<lparr>records := records f @ map as_written rs\<rparr>)"

definition overwrite_ops :: "string list option \<Rightarrow> log_row list \<Rightarrow> write_op list" where
  "overwrite_ops header kept = [OpenW, WriteHeader header, WriteRows kept]"

text \<open>
  The file as it lies on disk once the given operations have been tried in order; an
  operation that raises ends the run and leaves the file as it was before it.
\<close>

fun on_disk :: "csv_file \<Rightarrow> write_op list \<Rightarrow> csv_file" where
  "on_disk f [] = f"
| "on_disk f (w # ws) = (case apply_write f w of Inl e \<Rightarrow> f | Inr f' \<Rightarrow> on_disk f' ws)"


text \<open>
  \<^verbatim>\<open>filter_ingame_logs\<close>: the file system it leaves, with the exception that ended the
  run or the final state of the loop (\<open>None\<close> when the in-game file is missing and the
  function returns early). A missing summary log ends the run in \<^verbatim>\<open>sys.exit(1)\<close>.
\<close>

definition filter_ingame_logs ::
    "(string \<Rightarrow> py_datetime option) \<Rightarrow> file_system
       \<Rightarrow> file_system \<times> (py_error + filter_state option)" where
  "filter_ingame_logs fromisoformat fs =
     (case fs summary_path of
        None \<Rightarrow> (fs, Inl SystemExit)
      | Some summary \<Rightarrow>
          let valid_users = valid_users_of (records summary) in
          (case fs input_file of
             None \<Rightarrow> (fs, Inr None)
           | Some f \<Rightarrow>
               let header = fieldnames f in
               (case filter_rows fromisoformat valid_users (records f) of
                  (st, Some e) \<Rightarrow> (fs, Inl e)
                | (st, None) \<Rightarrow>
                    let fs' = fs(input_file \<mapsto> on_disk f (overwrite_ops header (kept_rows st)))
                    in (case header of
                          None \<Rightarrow> (fs', Inl TypeError)
                        | Some h \<Rightarrow> (fs', Inr (Some st))))))"




section \<open>The role classifier\<close>

text \<open>
  C8: the classifier is a total function of the label with the fixed priority Athens,
  North America, Mars Colony, Other, the first marker found in this order deciding. Every
  label in which \<^verbatim>\<open>Athens\<close> occurs is classified Athens, whatever stands before or
  after the marker and whatever other markers occur; without \<^verbatim>\<open>Athens\<close>, a label
  with \<^verbatim>\<open>North America\<close> is North America also when \<^verbatim>\<open>Mars Colony\<close> occurs in it;
  with neither, a label with \<^verbatim>\<open>Mars Colony\<close> is Mars Colony; a label with no marker is
  Other. The label \<^verbatim>\<open>Athens Mars Colony trip\<close> is classified Athens, not Mars Colony.
\<close>

theorem get_role_category_priority:
  "(str_in ''Athens'' label \<longrightarrow> get_role_category label = ''Athens'')
   \<and> (\<not> str_in ''Athens'' label \<and> str_in ''North America'' label
        \<longrightarrow> get_role_category label = ''North America'')
   \<and> (\<not> str_in ''Athens'' label \<and> \<not> str_in ''North America'' label
        \<and> str_in ''Mars Colony'' label
        \<longrightarrow> get_role_category label = ''Mars Colony'')
   \<and> (\<not> str_in ''Athens'' label \<and> \<not> str_in ''North America'' label
        \<and> \<not> str_in ''Mars Colony'' label
        \<longrightarrow> get_role_category label = ''Other'')
   \<and> get_role_category (before @ ''Athens'' @ rest) = ''Athens''
   \<and> get_role_category ''Athens Mars Colony trip'' = ''Athens''
   \<and> get_role_category ''Athens Mars Colony trip'' \<noteq> ''Mars Colony''"
proof -
  have 1: "str_in ''Athens'' (before @ ''Athens'' @ rest)"
    by (rule sublist_appendI)
  have 2: "str_in ''Athens'' ''Athens Mars Colony trip''"
    by (simp add: sublist_Cons_right)
  show ?thesis
    unfolding get_role_category_def using 1 2 by simp
qed

theorem get_role_category_priority_witness:
  "str_in ''Athens'' ''North America via Athens''
   \<and> get_role_category ''North America via Athens'' = ''Athens''
   \<and> \<not> str_in ''Athens'' ''Mars Colony, North America''
   \<and> str_in ''North America'' ''Mars Colony, North America''
   \<and> get_role_category ''Mars Colony, North America'' = ''North America''
   \<and> \<not> str_in ''Athens'' ''Mars Colony Day 3''
   \<and> \<not> str_in ''North America'' ''Mars Colony Day 3''
   \<and> str_in ''Mars Colony'' ''Mars Colony Day 3''
   \<and> get_role_category ''Mars Colony Day 3'' = ''Mars Colony''
   \<and> \<not> str_in ''Athens'' ''Tel Aviv''
   \<and> \<not> str_in ''North America'' ''Tel Aviv''
   \<and> \<not> str_in ''Mars Colony'' ''Tel Aviv''
   \<and> get_role_category ''Tel Aviv'' = ''Other''"
proof -
  have a: "str_in ''Athens'' ''North America via Athens''"
    by (simp add: sublist_Cons_right)
  have n: "\<not> str_in ''Athens'' ''Mars Colony, North America''"
          "str_in ''North America'' ''Mars Colony, North America''"
    by (simp_all add: sublist_Cons_right)
  have m: "\<not> str_in ''Athens'' ''Mars Colony Day 3''"
          "\<not> str_in ''North America'' ''Mars Colony Day 3''"
          "str_in ''Mars Colony'' ''Mars Colony Day 3''"
    by (simp_all add: sublist_Cons_right)
  have t: "\<not> str_in ''Athens'' ''Tel Aviv''"
          "\<not> str_in ''North America'' ''Tel Aviv''"
          "\<not> str_in ''Mars Colony'' ''Tel Aviv''"
    by (simp_all add: sublist_Cons_right)
  from get_role_category_priority [of "''North America via Athens''"]
       get_role_category_priority [of "''Mars Colony, North America''"]
       get_role_category_priority [of "''Mars Colony Day 3''"]
       get_role_category_priority [of "''Tel Aviv''"]
       a n m t
  show ?thesis by simp
qed

text \<open>The closed range of the classifier.\<close>

lemma get_role_category_range:
  "get_role_category l \<in> {''Athens'', ''North America'', ''Mars Colony'', ''Other''}"
  by (simp add: get_role_category_def)

section \<open>The completion buckets\<close>

lemma subset_three_cases:
  assumes "R \<subseteq> {a, b, c}"
  shows "R = {} \<or> R = {a} \<or> R = {b} \<or> R = {c}
       \<or> R = {a, b} \<or> R = {a, c} \<or> R = {b, c} \<or> R = {a, b, c}"
proof -
  have "R \<in> Pow {a, b, c}" using assms by simp
  then show ?thesis
    unfolding Pow_insert Pow_empty by auto
qed

lemma roles_subset_cases:
  assumes "R \<subseteq> {''Athens'', ''North America'', ''Mars Colony''}"
  shows "R = {} \<or> R = {''Athens''} \<or> R = {''North America''} \<or> R = {''Mars Colony''}
       \<or> R = {''Athens'', ''North America''} \<or> R = {''Athens'', ''Mars Colony''}
       \<or> R = {''North America'', ''Mars Colony''}
       \<or> R = {''Athens'', ''North America'', ''Mars Colony''}"
  using assms by (rule subset_three_cases)

text \<open>
  C1: for each of the eight role sets drawn from Athens, North America and Mars Colony,
  the chain of \<^verbatim>\<open>analyze_users_debug.py\<close> yields one of the six buckets and never
  \<open>Unclassified\<close>; exactly one of the six branch conditions holds, and it is the one of
  the bucket returned.
\<close>

theorem classify_exhaustive:
  assumes "R \<subseteq> {''Athens'', ''North America'', ''Mars Colony''}"
  shows "bucket_of R \<in>
           {AllThree, AthensOnly, AthensAndNA, AthensAndMars, NoAthensButOther, NoValidRoles}
       \<and> bucket_of R \<noteq> Unclassified
       \<and> map fst (filter snd (branch_conditions R)) = [bucket_of R]"
  using roles_subset_cases [OF assms]
  by (elim disjE) (simp_all add: bucket_of_def branch_conditions_def)

theorem classify_exhaustive_witness:
  "{''Athens'', ''Mars Colony''} \<subseteq> {''Athens'', ''North America'', ''Mars Colony''}
   \<and> bucket_of {''Athens'', ''Mars Colony''} = AthensAndMars
   \<and> map fst (filter snd (branch_conditions {''Athens'', ''Mars Colony''})) = [AthensAndMars]"
proof -
  have h: "{''Athens'', ''Mars Colony''} \<subseteq> {''Athens'', ''North America'', ''Mars Colony''}"
    by simp
  have b: "bucket_of {''Athens'', ''Mars Colony''} = AthensAndMars"
    by (simp add: bucket_of_def)
  from classify_exhaustive [OF h] h b show ?thesis by simp
qed

text \<open>The table, one line per role set.\<close>

lemma bucket_of_table:
  "bucket_of {} = NoValidRoles"
  "bucket_of {''Athens'', ''North America'', ''Mars Colony''} = AllThree"
  "bucket_of {''Athens''} = AthensOnly"
  "bucket_of {''Athens'', ''North America''} = AthensAndNA"
  "bucket_of {''Athens'', ''Mars Colony''} = AthensAndMars"
  "bucket_of {''North America''} = NoAthensButOther"
  "bucket_of {''Mars Colony''} = NoAthensButOther"
  "bucket_of {''North America'', ''Mars Colony''} = NoAthensButOther"
  by (simp_all add: bucket_of_def)

section \<open>The role profiles\<close>

lemma observed_roles_Nil: "observed_roles [] u = {}"
  by (simp add: observed_roles_def)

lemma observed_roles_snoc:
  "observed_roles (rows @ [row]) u =
     (if userId row = u \<and> get_role_category (role row) \<noteq> ''Other''
      then insert (get_role_category (role row)) (observed_roles rows u)
      else observed_roles rows u)"
  by (auto simp: observed_roles_def)

lemma observed_roles_subset:
  "observed_roles rows u \<subseteq> {''Athens'', ''North America'', ''Mars Colony''}"
  using get_role_category_range by (auto simp: observed_roles_def)

lemma users_summary_roles_row_lookup:
  "users_summary_roles_row m row u =
     (if userId row = u \<and> u \<noteq> [] \<and> u \<notin> excluded_users
         \<and> get_role_category (role row) \<noteq> ''Other''
      then Some (insert (get_role_category (role row)) (get_set m u))
      else m u)"
  by (auto simp: users_summary_roles_row_def get_set_def Let_def split: option.splits)

lemma users_summary_roles_lookup:
  "users_summary_roles rows u =
     (if u = [] \<or> u \<in> excluded_users \<or> observed_roles rows u = {} then None
      else Some (observed_roles rows u))"
proof (induction rows rule: rev_induct)
  case Nil
  show ?case by (simp add: users_summary_roles_def observed_roles_Nil)
next
  case (snoc row rows)
  have "users_summary_roles (rows @ [row]) u
          = users_summary_roles_row (users_summary_roles rows) row u"
    by (simp add: users_summary_roles_def)
  also have "\<dots> = (if u = [] \<or> u \<in> excluded_users \<or> observed_roles (rows @ [row]) u = {}
                     then None else Some (observed_roles (rows @ [row]) u))"
    unfolding users_summary_roles_row_lookup observed_roles_snoc get_set_def snoc.IH
    by auto
  finally show ?case .
qed

section \<open>The expected-missing roles\<close>

lemma subset_three_eq:
  assumes "R \<subseteq> {a, b, c}" and "a \<noteq> b" and "a \<noteq> c" and "b \<noteq> c"
  shows "R = {a} \<longleftrightarrow> a \<in> R \<and> b \<notin> R \<and> c \<notin> R"
    and "R = {a, b} \<longleftrightarrow> a \<in> R \<and> b \<in> R \<and> c \<notin> R"
    and "R = {a, c} \<longleftrightarrow> a \<in> R \<and> b \<notin> R \<and> c \<in> R"
  using assms by auto

lemma missing_roles_table:
  assumes "R \<subseteq> {''Athens'', ''North America'', ''Mars Colony''}" and "R \<noteq> {}"
  shows "missing_roles R =
     (if R = {''Athens''} then {''North America'', ''Mars Colony''}
      else if R = {''Athens'', ''North America''} then {''Mars Colony''}
      else if R = {''Athens'', ''Mars Colony''} then {''North America''}
      else if ''Athens'' \<notin> R
      then {''Athens''}
           \<union> (if ''North America'' \<notin> R then {''North America''} else {})
           \<union> (if ''Mars Colony'' \<notin> R then {''Mars Colony''} else {})
      else {})"
proof -
  note eqs = subset_three_eq [OF assms(1)]
  have "R = {''Athens''}
          \<longleftrightarrow> ''Athens'' \<in> R \<and> ''North America'' \<notin> R \<and> ''Mars Colony'' \<notin> R"
    by (rule eqs(1)) simp_all
  moreover have "R = {''Athens'', ''North America''}
          \<longleftrightarrow> ''Athens'' \<in> R \<and> ''North America'' \<in> R \<and> ''Mars Colony'' \<notin> R"
    by (rule eqs(2)) simp_all
  moreover have "R = {''Athens'', ''Mars Colony''}
          \<longleftrightarrow> ''Athens'' \<in> R \<and> ''North America'' \<notin> R \<and> ''Mars Colony'' \<in> R"
    by (rule eqs(3)) simp_all
  ultimately show ?thesis
    unfolding missing_roles_def by simp
qed

text \<open>
  C2: for every summary log and every user, with \<open>roleSet\<close> the profile of the user
  built by \<^verbatim>\<open>analyze_day8_completion.py\<close> (empty when the user has no entry), the
  expected-missing set in \<^verbatim>\<open>users_to_check\<close> (empty when the user has no entry) is
  North America and Mars Colony for the profile Athens; Mars Colony for Athens and North
  America; North America for Athens and Mars Colony; Athens, with North America and Mars
  Colony where they are absent, for a non-empty profile without Athens; and empty for
  the empty and the full profile. No profile entry of this builder is the empty set: a
  user seen with other labels only has no entry, and so no expected roles.
\<close>

theorem expected_missing_table:
  "get_set (users_to_check (users_summary_roles summary)) uid =
     (let roleSet = get_set (users_summary_roles summary) uid in
      if roleSet = {''Athens''} then {''North America'', ''Mars Colony''}
      else if roleSet = {''Athens'', ''North America''} then {''Mars Colony''}
      else if roleSet = {''Athens'', ''Mars Colony''} then {''North America''}
      else if ''Athens'' \<notin> roleSet \<and> roleSet \<noteq> {}
      then {''Athens''}
           \<union> (if ''North America'' \<notin> roleSet then {''North America''} else {})
           \<union> (if ''Mars Colony'' \<notin> roleSet then {''Mars Colony''} else {})
      else {})
   \<and> users_summary_roles summary uid \<noteq> Some {}"
proof (cases "users_summary_roles summary uid")
  case None
  then show ?thesis
    by (simp add: users_to_check_def get_set_def)
next
  case (Some R)
  then have R: "R = observed_roles summary uid" "R \<noteq> {}"
    by (auto simp: users_summary_roles_lookup split: if_splits)
  then have sub: "R \<subseteq> {''Athens'', ''North America'', ''Mars Colony''}"
    using observed_roles_subset by simp
  have 1: "get_set (users_to_check (users_summary_roles summary)) uid = missing_roles R"
    using Some by (simp add: users_to_check_def get_set_def)
  have 2: "get_set (users_summary_roles summary) uid = R"
    using Some by (simp add: get_set_def)
  show ?thesis
    unfolding 1 2 Let_def using missing_roles_table [OF sub R(2)] R(2) Some by simp
qed



theorem expected_missing_table_witness:
  "get_set (users_to_check (users_summary_roles
       [summary_row ''u2'' ''Mars Colony''])) ''u2''
     = {''Athens'', ''North America''}"
proof -
  let ?rows = "[summary_row ''u2'' ''Mars Colony'']"
  have p: "get_set (users_summary_roles ?rows) ''u2'' = {''Mars Colony''}"
    by (simp add: summary_row_def users_summary_roles_def users_summary_roles_row_def get_role_category_def
        sublist_Cons_right excluded_users_def get_set_def)
  from expected_missing_table [of ?rows "''u2''"] show ?thesis
    unfolding p Let_def by auto
qed

text \<open>On the empty set itself, which no profile entry of the builder is, the chain of
  lines 50-66 takes its fourth branch.\<close>

lemma missing_roles_empty:
  "missing_roles {} = {''Athens'', ''North America'', ''Mars Colony''}"
  by (auto simp: missing_roles_def)

section \<open>Users seen with other labels only, and the operator accounts\<close>


lemma analyze_users_debug_row_lookup:
  "analyze_users_debug_row m row u =
     (if userId row = u \<and> u \<noteq> [] \<and> u \<notin> excluded_users
      then Some (if get_role_category (role row) \<noteq> ''Other''
                 then insert (get_role_category (role row)) (get_set m u) else get_set m u)
      else m u)"
  by (auto simp: analyze_users_debug_row_def get_set_def Let_def excluded_users_def
      split: option.splits)


lemma analyze_users_debug_roles_lookup:
  "analyze_users_debug_roles rows u =
     (if u = [] \<or> u \<in> excluded_users \<or> u \<notin> userId ` set rows then None
      else Some (observed_roles rows u))"
proof (induction rows rule: rev_induct)
  case Nil
  show ?case by (simp add: analyze_users_debug_roles_def)
next
  case (snoc row rows)
  have "analyze_users_debug_roles (rows @ [row]) u
          = analyze_users_debug_row (analyze_users_debug_roles rows) row u"
    by (simp add: analyze_users_debug_roles_def)
  also have "\<dots> = (if u = [] \<or> u \<in> excluded_users \<or> u \<notin> userId ` set (rows @ [row])
                     then None else Some (observed_roles (rows @ [row]) u))"
    unfolding analyze_users_debug_row_lookup observed_roles_snoc get_set_def snoc.IH
    by (auto simp: observed_roles_def image_iff)
  finally show ?case .
qed




text \<open>
  C6: an operator account is to appear in no role profile. The builder of
  \<^verbatim>\<open>analyze_users.py\<close> has no test against the operator accounts: on a summary log
  with one Athens row of \<^verbatim>\<open>yoav@tau.ac.il\<close> the account gets the profile Athens, where
  the builder of \<^verbatim>\<open>analyze_users_debug.py\<close> gives it no entry.
\<close>

theorem excluded_user_in_profile:
  "''yoav@tau.ac.il'' \<in> excluded_users
   \<and> analyze_users_roles
       [summary_row ''yoav@tau.ac.il'' ''Athens''] ''yoav@tau.ac.il'' = Some {''Athens''}
   \<and> analyze_users_debug_roles
       [summary_row ''yoav@tau.ac.il'' ''Athens''] ''yoav@tau.ac.il'' = None"
  by (simp add: summary_row_def analyze_users_roles_def analyze_users_row_def analyze_users_debug_roles_def
      analyze_users_debug_row_def get_role_category_def excluded_users_def)

section \<open>The day-8 scan\<close>

lemma day8_row_verified:
  "is_verified (day8_row to_check results row) uid c \<longleftrightarrow>
     is_verified results uid c
     \<or> (userId row = uid \<and> day row = Some ''8''
        \<and> matched_target (role row) (get_set to_check uid) = Some c)"
proof -
  have none: "matched_target l {} = None" for l
    by (simp add: matched_target_def)
  show ?thesis
    by (auto simp: day8_row_def is_verified_def get_set_def none Let_def
        split: option.splits)
qed

lemma day8_fold_verified:
  "is_verified (foldl (day8_row to_check) results rows) uid c \<longleftrightarrow>
     is_verified results uid c
     \<or> (\<exists>row \<in> set rows. userId row = uid \<and> day row = Some ''8''
           \<and> matched_target (role row) (get_set to_check uid) = Some c)"
proof (induction rows arbitrary: results)
  case Nil
  show ?case by simp
next
  case (Cons row rows)
  show ?case
    unfolding foldl_Cons Cons.IH day8_row_verified by auto
qed








text \<open>
  C9: within one scan of the in-game rows, a pair of user and category that is verified
  after a prefix of the rows is verified after every longer prefix.
\<close>

theorem day8_verified_monotone:
  assumes "is_verified (day8_scan to_check (take n ingame)) uid c" and "n \<le> k"
  shows "is_verified (day8_scan to_check (take k ingame)) uid c"
proof -
  have "set (take n ingame) \<subseteq> set (take k ingame)"
    using assms(2) by (rule set_take_subset_set_take)
  then show ?thesis
    using assms(1) unfolding day8_scan_def day8_fold_verified by blast
qed

theorem day8_verified_monotone_witness:
  "is_verified
     (day8_scan [''u2'' \<mapsto> {''Athens'', ''North America''}]
        (take 1 [ingame_row ''u2'' ''Athens'' ''8'' [], ingame_row ''u2'' ''Athens'' ''3'' []]))
     ''u2'' ''Athens''
   \<and> (1::nat) \<le> 2
   \<and> is_verified
     (day8_scan [''u2'' \<mapsto> {''Athens'', ''North America''}]
        (take 2 [ingame_row ''u2'' ''Athens'' ''8'' [], ingame_row ''u2'' ''Athens'' ''3'' []]))
     ''u2'' ''Athens''"
proof -
  have h: "is_verified
     (day8_scan [''u2'' \<mapsto> {''Athens'', ''North America''}]
        (take 1 [ingame_row ''u2'' ''Athens'' ''8'' [], ingame_row ''u2'' ''Athens'' ''3'' []]))
     ''u2'' ''Athens''"
    by (simp add: day8_scan_def day8_row_def ingame_row_def matched_target_def is_verified_def)
  have le: "(1::nat) \<le> 2" by simp
  from day8_verified_monotone [OF h le] h le show ?thesis by simp
qed

section \<open>The maximum day\<close>

lemma matching_days_Nil: "matching_days u c [] = {}"
  by (simp add: matching_days_def)

lemma matching_days_Cons:
  "matching_days u c (row # rows) =
     (if userId row = u \<and> str_in c (role row)
      then (case Option.bind (day row) py_int of None \<Rightarrow> {} | Some d \<Rightarrow> {d}) else {})
     \<union> matching_days u c rows"
  by (auto simp: matching_days_def split: option.splits)

lemma finite_matching_days: "finite (matching_days u c rows)"
  by (induction rows) (auto simp: matching_days_Nil matching_days_Cons split: option.splits)

lemma max_day_row_other:
  assumes "userId row \<noteq> u"
  shows "fst (max_day_row tgts max_days row) u = max_days u"
  using assms by (auto simp: max_day_row_def Let_def split: option.splits)

lemma max_day_row_no_error:
  assumes "dom max_days = dom tgts"
    and "\<forall>c. tgts (userId row) = Some c \<longrightarrow> str_in c (role row) \<longrightarrow> day row \<noteq> None"
  shows "snd (max_day_row tgts max_days row) = None
       \<and> dom (fst (max_day_row tgts max_days row)) = dom tgts"
proof (cases "tgts (userId row)")
  case None
  then show ?thesis using assms(1) by (simp add: max_day_row_def)
next
  case (Some c)
  then obtain cur where cur: "max_days (userId row) = Some cur"
    using assms(1) by (metis domD domI)
  show ?thesis
  proof (cases "str_in c (role row)")
    case False
    then show ?thesis
      using Some assms(1) by (simp add: max_day_row_def)
  next
    case True
    then obtain d where d: "day row = Some d"
      using assms(2) Some by auto
    show ?thesis
      using Some True d cur assms(1)
      by (auto simp: max_day_row_def Let_def split: option.splits)
  qed
qed

text \<open>A row of a target user whose label contains the target role and whose day is
  missing ends the scan with \<^verbatim>\<open>TypeError\<close>, the maxima as they were.\<close>

lemma max_day_row_missing_day:
  assumes "tgts (userId row) = Some c" and "str_in c (role row)" and "day row = None"
  shows "max_day_row tgts max_days row = (max_days, Some TypeError)"
  using assms by (simp add: max_day_row_def)

lemma max_day_row_same:
  assumes "tgts u = Some c" and "max_days u = Some cur"
  shows "fst (max_day_row tgts max_days row) u
           = Some (Max (insert cur (matching_days u c [row])))"
proof (cases "userId row = u")
  case False
  then show ?thesis
    using assms by (simp add: max_day_row_other matching_days_Cons matching_days_Nil)
next
  case True
  show ?thesis
  proof (cases "str_in c (role row)")
    case False
    then show ?thesis
      using True assms
      by (simp add: max_day_row_def matching_days_Cons matching_days_Nil)
  next
    case match: True
    show ?thesis
    proof (cases "day row")
      case None
      then show ?thesis
        using True match assms
        by (simp add: max_day_row_def matching_days_Cons matching_days_Nil)
    next
      case day: (Some day_text)
      show ?thesis
      proof (cases "py_int day_text")
        case None
        then show ?thesis
          using True match day assms
          by (simp add: max_day_row_def matching_days_Cons matching_days_Nil)
      next
        case (Some d)
        then show ?thesis
          using True match day assms
          by (simp add: max_day_row_def matching_days_Cons matching_days_Nil max_def)
      qed
    qed
  qed
qed

lemma Max_insert_union:
  assumes "finite A" and "finite B"
  shows "Max (insert (Max (insert (cur::int) A)) B) = Max (insert cur (A \<union> B))"
proof (rule antisym)
  have fin: "finite (insert cur A)" "finite (insert cur (A \<union> B))"
            "finite (insert (Max (insert cur A)) B)"
    using assms by simp_all
  have 1: "Max (insert cur A) \<le> Max (insert cur (A \<union> B))"
    by (rule Max_mono) (use fin in auto)
  have 2: "b \<le> Max (insert cur (A \<union> B))" if "b \<in> B" for b
    using that fin(2) by (intro Max_ge) auto
  show "Max (insert (Max (insert cur A)) B) \<le> Max (insert cur (A \<union> B))"
    using 1 2 fin(3) by (subst Max_le_iff) auto
  have 3: "Max (insert cur A) \<le> Max (insert (Max (insert cur A)) B)"
    using fin(3) by (intro Max_ge) auto
  have 4: "x \<le> Max (insert cur A)" if "x \<in> insert cur A" for x
    using that fin(1) by (intro Max_ge) auto
  have 5: "b \<le> Max (insert (Max (insert cur A)) B)" if "b \<in> B" for b
    using that fin(3) by (intro Max_ge) auto
  have 6: "x \<le> Max (insert (Max (insert cur A)) B)" if "x \<in> insert cur A" for x
    using 4 [OF that] 3 by (rule order_trans)
  show "Max (insert cur (A \<union> B)) \<le> Max (insert (Max (insert cur A)) B)"
    using 5 6 fin(2) by (subst Max_le_iff) auto
qed

lemma max_day_fold:
  assumes "dom max_days = dom tgts"
    and "\<forall>row \<in> set rows. \<forall>c. tgts (userId row) = Some c \<longrightarrow> str_in c (role row)
           \<longrightarrow> day row \<noteq> None"
  shows "snd (for_rows (max_day_row tgts) max_days rows) = None
       \<and> dom (fst (for_rows (max_day_row tgts) max_days rows)) = dom tgts
       \<and> (\<forall>u c cur. tgts u = Some c \<longrightarrow> max_days u = Some cur \<longrightarrow>
             fst (for_rows (max_day_row tgts) max_days rows) u
               = Some (Max (insert cur (matching_days u c rows))))"
  using assms
proof (induction rows arbitrary: max_days)
  case Nil
  then show ?case by (simp add: matching_days_Nil)
next
  case (Cons row rows)
  have here: "\<forall>c. tgts (userId row) = Some c \<longrightarrow> str_in c (role row) \<longrightarrow> day row \<noteq> None"
    using Cons.prems(2) by simp
  have later: "\<forall>row \<in> set rows. \<forall>c. tgts (userId row) = Some c \<longrightarrow> str_in c (role row)
                 \<longrightarrow> day row \<noteq> None"
    using Cons.prems(2) by simp
  obtain m where m: "max_day_row tgts max_days row = (m, None)" "dom m = dom tgts"
    using max_day_row_no_error [OF Cons.prems(1) here]
    by (cases "max_day_row tgts max_days row") auto
  have step: "for_rows (max_day_row tgts) max_days (row # rows)
                = for_rows (max_day_row tgts) m rows"
    using m(1) by simp
  note IH = Cons.IH [OF m(2) later]
  have "fst (for_rows (max_day_row tgts) m rows) u
          = Some (Max (insert cur (matching_days u c (row # rows))))"
    if u: "tgts u = Some c" "max_days u = Some cur" for u c cur
  proof -
    have mu: "m u = Some (Max (insert cur (matching_days u c [row])))"
      using max_day_row_same [of tgts u c max_days cur row] u m(1) by simp
    have "fst (for_rows (max_day_row tgts) m rows) u
            = Some (Max (insert (Max (insert cur (matching_days u c [row])))
                          (matching_days u c rows)))"
      using IH u(1) mu by blast
    also have "\<dots> = Some (Max (insert cur (matching_days u c [row] \<union> matching_days u c rows)))"
      by (simp add: Max_insert_union finite_matching_days)
    also have "matching_days u c [row] \<union> matching_days u c rows = matching_days u c (row # rows)"
      by (auto simp: matching_days_def)
    finally show ?thesis .
  qed
  then show ?case
    unfolding step using IH by blast
qed


text \<open>
  Where every row of a target user whose label contains the target role has a day, the
  scan ends without an exception and leaves for each target user a value that is at
  least 0: the greatest of 0 and the days parsed from those rows.
\<close>

lemma analyze_max_day_complete:
  assumes "tgts uid = Some target_role"
    and "\<forall>row \<in> set ingame. \<forall>c. tgts (userId row) = Some c \<longrightarrow> str_in c (role row)
           \<longrightarrow> day row \<noteq> None"
  shows "\<exists>max_days d.
           analyze_max_day tgts ingame = (max_days, None)
         \<and> max_days uid = Some d
         \<and> 0 \<le> d
         \<and> d = Max (insert 0 (matching_days uid target_role ingame))
         \<and> ((\<forall>n \<in> matching_days uid target_role ingame. n \<le> 0) \<longrightarrow> d = 0)
         \<and> ((\<exists>n \<in> matching_days uid target_role ingame. 0 < n)
              \<longrightarrow> d = Max (matching_days uid target_role ingame))"
proof -
  let ?S = "matching_days uid target_role ingame"
  let ?d = "Max (insert 0 ?S)"
  have dom: "dom (max_days_init tgts) = dom tgts"
    by (auto simp: max_days_init_def split: option.splits)
  have init: "max_days_init tgts uid = Some 0"
    using assms(1) by (simp add: max_days_init_def)
  note fold = max_day_fold [OF dom assms(2)]
  obtain m where m: "analyze_max_day tgts ingame = (m, None)"
    using fold unfolding analyze_max_day_def
    by (cases "for_rows (max_day_row tgts) (max_days_init tgts) ingame") auto
  have mu: "m uid = Some ?d"
    using fold assms(1) init m unfolding analyze_max_day_def by auto
  have fin: "finite (insert 0 ?S)"
    by (simp add: finite_matching_days)
  have ge: "0 \<le> ?d"
    using fin by (intro Max_ge) auto
  have zero: "?d = 0" if "\<forall>n \<in> ?S. n \<le> 0"
    using that fin by (intro Max_eqI) auto
  have pos: "?d = Max ?S" if "\<exists>n \<in> ?S. 0 < n"
  proof -
    from that obtain n where n: "n \<in> ?S" "0 < n" by blast
    then have "0 \<le> Max ?S"
      using Max_ge [OF finite_matching_days n(1)] by linarith
    moreover have "?S \<noteq> {}" using n by blast
    ultimately show ?thesis
      by (simp add: finite_matching_days max_def)
  qed
  show ?thesis
    using m mu ge zero pos by blast
qed

text \<open>
  C10: the scan is to return, always, a value that is at least 0. On a line of the
  in-game log that ends before the day column, for a target user and with the target
  role in the label, \<^verbatim>\<open>int(day_val)\<close> is \<^verbatim>\<open>int(None)\<close>: the \<^verbatim>\<open>TypeError\<close> passes the
  \<^verbatim>\<open>except ValueError\<close> that was to pass over days that are no integers, and the script
  ends without a value.
\<close>

theorem analyze_max_day_missing_day:
  "analyze_max_day targets
     [\<lparr>userId = ''gal2@mail.tau.ac.il'', role = ''Mars Colony'', day = None,
       timestamp = Some ''2024-11-20T10:00:00Z'', other_columns = []\<rparr>]
   = (max_days_init targets, Some TypeError)"
  by (simp add: analyze_max_day_def max_day_row_def targets_def)

section \<open>The population filter\<close>

lemma track_dates_keeps:
  "kept_rows (fst (track_dates ts st)) = kept_rows st"
  "removed_count (fst (track_dates ts st)) = removed_count st"
  "total_count (fst (track_dates ts st)) = total_count st"
  "snd (track_dates ts st) = None \<or> snd (track_dates ts st) = Some TypeError"
  by (auto simp: track_dates_def dt_less_def Let_def split: option.splits sum.splits)

lemma filter_row_step:
  "total_count (fst (filter_row f V st row)) = total_count st + 1"
  "kept_rows (fst (filter_row f V st row))
     = kept_rows st @ (if userId row \<in> V then [row] else [])"
  "removed_count (fst (filter_row f V st row))
     = removed_count st + (if userId row \<in> V then 0 else 1)"
  by (auto simp: filter_row_def Let_def track_dates_keeps split: option.splits)

lemma filter_row_error:
  "snd (filter_row f V st row) = None \<or> snd (filter_row f V st row) = Some TypeError
     \<or> snd (filter_row f V st row) = Some AttributeError"
proof (cases "userId row \<in> V")
  case False
  then show ?thesis by (simp add: filter_row_def)
next
  case True
  show ?thesis
  proof (cases "timestamp row")
    case None
    then show ?thesis using True by (simp add: filter_row_def)
  next
    case ts: (Some ts_text)
    show ?thesis
    proof (cases "f (replace_Z ts_text)")
      case None
      then show ?thesis using True ts by (simp add: filter_row_def)
    next
      case (Some d)
      then have "filter_row f V st row
                   = track_dates d (st\<lparr>total_count := total_count st + 1,
                                       kept_rows := kept_rows st @ [row]\<rparr>)"
        using True ts by (simp add: filter_row_def)
      then show ?thesis
        using track_dates_keeps(4)
          [of d "st\<lparr>total_count := total_count st + 1, kept_rows := kept_rows st @ [row]\<rparr>"]
        by auto
    qed
  qed
qed

lemma filter_fold:
  "\<exists>n. n \<le> length rows
     \<and> total_count (fst (for_rows (filter_row f V) st rows)) = total_count st + n
     \<and> kept_rows (fst (for_rows (filter_row f V) st rows))
         = kept_rows st @ filter (\<lambda>row. userId row \<in> V) (take n rows)
     \<and> removed_count (fst (for_rows (filter_row f V) st rows))
         = removed_count st + length (filter (\<lambda>row. userId row \<notin> V) (take n rows))
     \<and> (snd (for_rows (filter_row f V) st rows) = None \<longrightarrow> n = length rows)
     \<and> (snd (for_rows (filter_row f V) st rows) = None
          \<or> snd (for_rows (filter_row f V) st rows) = Some TypeError
          \<or> snd (for_rows (filter_row f V) st rows) = Some AttributeError)"
proof (induction rows arbitrary: st)
  case Nil
  show ?case by simp
next
  case (Cons row rows)
  obtain st1 e where step: "filter_row f V st row = (st1, e)"
    by (cases "filter_row f V st row")
  have t1: "total_count st1 = total_count st + 1"
    using filter_row_step(1) [of f V st row] step by simp
  have k1: "kept_rows st1 = kept_rows st @ (if userId row \<in> V then [row] else [])"
    using filter_row_step(2) [of f V st row] step by simp
  have r1: "removed_count st1 = removed_count st + (if userId row \<in> V then 0 else 1)"
    using filter_row_step(3) [of f V st row] step by simp
  have e1: "e = None \<or> e = Some TypeError \<or> e = Some AttributeError"
    using filter_row_error [of f V st row] step by simp
  show ?case
  proof (cases e)
    case (Some err)
    then have run: "for_rows (filter_row f V) st (row # rows) = (st1, e)"
      using step by simp
    show ?thesis
      unfolding run fst_conv snd_conv
      using e1 by (intro exI [of _ 1]) (simp add: t1 k1 r1 Some)
  next
    case None
    then have run: "for_rows (filter_row f V) st (row # rows) = for_rows (filter_row f V) st1 rows"
      using step by simp
    let ?R = "for_rows (filter_row f V) st1 rows"
    from Cons.IH [of st1] obtain n where n:
      "n \<le> length rows
       \<and> total_count (fst ?R) = total_count st1 + n
       \<and> kept_rows (fst ?R) = kept_rows st1 @ filter (\<lambda>row. userId row \<in> V) (take n rows)
       \<and> removed_count (fst ?R)
           = removed_count st1 + length (filter (\<lambda>row. userId row \<notin> V) (take n rows))
       \<and> (snd ?R = None \<longrightarrow> n = length rows)
       \<and> (snd ?R = None \<or> snd ?R = Some TypeError \<or> snd ?R = Some AttributeError)" ..
    have a: "Suc n \<le> length (row # rows)"
      using n by simp
    have b: "total_count (fst ?R) = total_count st + Suc n"
      using n t1 by simp
    have c: "kept_rows (fst ?R)
               = kept_rows st @ filter (\<lambda>row. userId row \<in> V) (take (Suc n) (row # rows))"
      using n k1 by simp
    have d: "removed_count (fst ?R)
               = removed_count st
                 + length (filter (\<lambda>row. userId row \<notin> V) (take (Suc n) (row # rows)))"
      using n r1 by simp
    have e: "snd ?R = None \<longrightarrow> Suc n = length (row # rows)"
      using n by simp
    have g: "snd ?R = None \<or> snd ?R = Some TypeError \<or> snd ?R = Some AttributeError"
      using n by simp
    show ?thesis
      unfolding run using a b c d e g by (intro exI [of _ "Suc n"] conjI)
  qed
qed




lemma valid_users_fold:
  "foldl get_valid_users_row V rows
     = V \<union> {u \<in> userId ` set rows. u \<noteq> [] \<and> u \<notin> excluded_users}"
proof (induction rows arbitrary: V)
  case Nil
  show ?case by simp
next
  case (Cons row rows)
  show ?case
    unfolding foldl_Cons Cons.IH by (auto simp: get_valid_users_row_def Let_def)
qed

lemma valid_users_of_eq:
  "valid_users_of summary = {u \<in> userId ` set summary. u \<noteq> [] \<and> u \<notin> excluded_users}"
  by (simp add: valid_users_of_def valid_users_fold)

lemma filter_rows_kept_valid:
  "\<forall>row \<in> set (kept_rows (fst (filter_rows f V rows))). userId row \<in> V"
proof -
  let ?R = "for_rows (filter_row f V) filter_init rows"
  from filter_fold [of rows f V filter_init] obtain n where n:
    "n \<le> length rows
     \<and> total_count (fst ?R) = total_count filter_init + n
     \<and> kept_rows (fst ?R)
         = kept_rows filter_init @ filter (\<lambda>row. userId row \<in> V) (take n rows)
     \<and> removed_count (fst ?R)
         = removed_count filter_init + length (filter (\<lambda>row. userId row \<notin> V) (take n rows))
     \<and> (snd ?R = None \<longrightarrow> n = length rows)
     \<and> (snd ?R = None \<or> snd ?R = Some TypeError \<or> snd ?R = Some AttributeError)" ..
  have "kept_rows (fst ?R) = kept_rows filter_init @ filter (\<lambda>row. userId row \<in> V) (take n rows)"
    using n by (rule conjunct1 [OF conjunct2 [OF conjunct2]])
  then have "kept_rows (fst (filter_rows f V rows)) = filter (\<lambda>row. userId row \<in> V) (take n rows)"
    by (simp add: filter_rows_def filter_init_def)
  then show ?thesis by simp
qed

text \<open>Outside \<^verbatim>\<open>analyze_users.py\<close> an operator account is in no profile, has no expected
  roles, is no valid user and has no row among those the filter keeps.\<close>

lemma excluded_users_elsewhere:
  assumes "u \<in> excluded_users"
  shows "analyze_users_debug_roles summary u = None"
    and "users_summary_roles summary u = None"
    and "users_to_check (users_summary_roles summary) u = None"
    and "u \<notin> valid_users_of summary"
    and "\<forall>row \<in> set (kept_rows (fst (filter_rows f (valid_users_of summary) ingame))).
           userId row \<noteq> u"
proof -
  show "analyze_users_debug_roles summary u = None"
    using assms by (simp add: analyze_users_debug_roles_lookup)
  show 2: "users_summary_roles summary u = None"
    using assms by (simp add: users_summary_roles_lookup)
  show "users_to_check (users_summary_roles summary) u = None"
    by (simp add: users_to_check_def 2)
  show 4: "u \<notin> valid_users_of summary"
    using assms by (simp add: valid_users_of_eq)
  show "\<forall>row \<in> set (kept_rows (fst (filter_rows f (valid_users_of summary) ingame))).
           userId row \<noteq> u"
    using filter_rows_kept_valid [of f "valid_users_of summary" ingame] 4 by metis
qed



text \<open>A run that does not reach line 93 leaves the files as they are.\<close>

lemma filter_ingame_logs_untouched:
  "fs summary_path = None \<Longrightarrow> filter_ingame_logs fromisoformat fs = (fs, Inl SystemExit)"
  "fs summary_path = Some summary \<Longrightarrow> fs input_file = None
     \<Longrightarrow> filter_ingame_logs fromisoformat fs = (fs, Inr None)"
  "fs summary_path = Some summary \<Longrightarrow> fs input_file = Some f
     \<Longrightarrow> snd (filter_rows fromisoformat (valid_users_of (records summary)) (records f)) = Some e
     \<Longrightarrow> filter_ingame_logs fromisoformat fs = (fs, Inl e)"
  by (simp_all add: filter_ingame_logs_def split_beta Let_def)





end
